theory Spec2Isabelle
  imports Complex_Main "HOL-Library.AList"
begin

section \<open>Conventions of the embedding\<close>

text \<open>
  The engine is Python. Its numbers are Python floats; the embedding reads a finite float as
  a \<^typ>\<open>real\<close> and computes exactly, so a statement "up to rounding" of the program is an
  equation of the model. Whatever raises in Python is a value \<open>Inl e\<close> of a sum type, so a
  division by zero is a result and not the \<open>0\<close> that HOL's total division returns.
\<close>

datatype py_error = ZeroDivisionError | IndexError | KeyError | ValueError | TypeError

text \<open>Sequencing of statements that may raise: the first exception ends the computation.\<close>

fun and_then :: "py_error + 'a \<Rightarrow> ('a \<Rightarrow> py_error + 'b) \<Rightarrow> py_error + 'b" where
  "and_then (Inl e) f = Inl e"
| "and_then (Inr v) f = f v"

text \<open>Python's \<open>a / b\<close> on floats.\<close>

definition truediv :: "real \<Rightarrow> real \<Rightarrow> py_error + real" where
  "truediv a b = (if b = 0 then Inl ZeroDivisionError else Inr (a / b))"

text \<open>\<open>d.get(k, default)\<close> on a dictionary.\<close>

definition dict_get :: "('k \<rightharpoonup> 'v) \<Rightarrow> 'k \<Rightarrow> 'v \<Rightarrow> 'v" where
  "dict_get d k dflt = (case d k of None \<Rightarrow> dflt | Some v \<Rightarrow> v)"

subsection \<open>Non-finite floats\<close>

text \<open>
  Where the program can produce an infinity or a not-a-number the value is an \<open>npfloat\<close>:
  a finite number, \<open>+inf\<close>, \<open>-inf\<close> or \<open>nan\<close>. The operations follow IEEE 754 as numpy
  applies it to its scalars: they never raise, a \<open>nan\<close> operand gives \<open>nan\<close>, and a
  comparison with \<open>nan\<close> is false. Zero is read as \<open>+0\<close>; rounding and overflow are not
  modelled.
\<close>

datatype npfloat = Num real | PosInf | NegInf | NaN

fun np_neg :: "npfloat \<Rightarrow> npfloat" where
  "np_neg (Num a) = Num (- a)"
| "np_neg PosInf = NegInf"
| "np_neg NegInf = PosInf"
| "np_neg NaN = NaN"

fun np_add :: "npfloat \<Rightarrow> npfloat \<Rightarrow> npfloat" where
  "np_add NaN y = NaN"
| "np_add x NaN = NaN"
| "np_add (Num a) (Num b) = Num (a + b)"
| "np_add PosInf NegInf = NaN"
| "np_add NegInf PosInf = NaN"
| "np_add PosInf y = PosInf"
| "np_add NegInf y = NegInf"
| "np_add (Num a) y = y"

definition np_sub :: "npfloat \<Rightarrow> npfloat \<Rightarrow> npfloat" where
  "np_sub x y = np_add x (np_neg y)"

text \<open>The sign of a product or quotient with an infinite operand.\<close>

definition signed_inf :: "bool \<Rightarrow> npfloat" where
  "signed_inf negative = (if negative then NegInf else PosInf)"

fun np_mul :: "npfloat \<Rightarrow> npfloat \<Rightarrow> npfloat" where
  "np_mul NaN y = NaN"
| "np_mul x NaN = NaN"
| "np_mul (Num a) (Num b) = Num (a * b)"
| "np_mul (Num a) PosInf = (if a = 0 then NaN else signed_inf (a < 0))"
| "np_mul (Num a) NegInf = (if a = 0 then NaN else signed_inf (a > 0))"
| "np_mul PosInf (Num b) = (if b = 0 then NaN else signed_inf (b < 0))"
| "np_mul NegInf (Num b) = (if b = 0 then NaN else signed_inf (b > 0))"
| "np_mul PosInf PosInf = PosInf"
| "np_mul NegInf NegInf = PosInf"
| "np_mul PosInf NegInf = NegInf"
| "np_mul NegInf PosInf = NegInf"

fun np_div :: "npfloat \<Rightarrow> npfloat \<Rightarrow> npfloat" where
  "np_div NaN y = NaN"
| "np_div x NaN = NaN"
| "np_div (Num a) (Num b) =
     (if b \<noteq> 0 then Num (a / b) else if a = 0 then NaN else signed_inf (a < 0))"
| "np_div (Num a) PosInf = Num 0"
| "np_div (Num a) NegInf = Num 0"
| "np_div PosInf (Num b) = signed_inf (b < 0)"
| "np_div NegInf (Num b) = signed_inf (\<not> b < 0)"
| "np_div PosInf y = NaN"
| "np_div NegInf y = NaN"

text \<open>\<open>x >= c\<close> for a finite \<open>c\<close>.\<close>

fun np_ge :: "npfloat \<Rightarrow> real \<Rightarrow> bool" where
  "np_ge (Num a) c = (a \<ge> c)"
| "np_ge PosInf c = True"
| "np_ge NegInf c = False"
| "np_ge NaN c = False"

text \<open>
  \<open>np.log\<close> and \<open>np.sqrt\<close> on a finite argument: outside their domain they warn and
  answer \<open>nan\<close> (\<open>-inf\<close> for \<open>log 0\<close>); they do not raise.
\<close>

definition np_log :: "real \<Rightarrow> npfloat" where
  "np_log x = (if x > 0 then Num (ln x) else if x = 0 then NegInf else NaN)"

definition np_sqrt :: "real \<Rightarrow> npfloat" where
  "np_sqrt x = (if x \<ge> 0 then Num (sqrt x) else NaN)"

text \<open>
  \<open>scipy.stats.norm.cdf\<close>: the distribution function \<open>Phi\<close> of the standard normal law on
  finite arguments, a parameter of the model, and its limits at the infinities.
\<close>

fun norm_cdf :: "(real \<Rightarrow> real) \<Rightarrow> npfloat \<Rightarrow> npfloat" where
  "norm_cdf Phi (Num a) = Num (Phi a)"
| "norm_cdf Phi PosInf = Num 1"
| "norm_cdf Phi NegInf = Num 0"
| "norm_cdf Phi NaN = NaN"

subsection \<open>Strings\<close>

text \<open>
  A \<^typ>\<open>char\<close> is read as a Unicode code point below 256, so a label is a Python string
  over Latin-1. On these code points \<open>str.lower\<close> adds 32 to \<open>A..Z\<close> (65..90) and to the
  accented capitals 192..222 other than the multiplication sign 215, and leaves every other
  character. \<open>str.strip\<close> removes from both ends the characters that \<open>str.isspace\<close>
  accepts: 9..13, 28..32, the next-line control 133 and the no-break space 160.
  \<open>sub in s\<close> holds when \<open>sub\<close> occurs in \<open>s\<close> as a contiguous run.
\<close>

definition lower_char :: "char \<Rightarrow> char" where
  "lower_char c =
     (let n = (of_char c :: nat)
      in if (65 \<le> n \<and> n \<le> 90) \<or> (192 \<le> n \<and> n \<le> 222 \<and> n \<noteq> 215)
         then char_of (n + 32) else c)"

definition lower :: "string \<Rightarrow> string" where
  "lower s = map lower_char s"

definition isspace :: "char \<Rightarrow> bool" where
  "isspace c =
     (let n = (of_char c :: nat)
      in (9 \<le> n \<and> n \<le> 13) \<or> (28 \<le> n \<and> n \<le> 32) \<or> n = 133 \<or> n = 160)"

definition strip :: "string \<Rightarrow> string" where
  "strip s = rev (dropWhile isspace (rev (dropWhile isspace s)))"

fun startswith :: "string \<Rightarrow> string \<Rightarrow> bool" where
  "startswith s [] = True"
| "startswith [] (p # ps) = False"
| "startswith (c # cs) (p # ps) = (c = p \<and> startswith cs ps)"

fun py_in :: "string \<Rightarrow> string \<Rightarrow> bool" where
  "py_in sub [] = (sub = [])"
| "py_in sub (c # cs) = (startswith (c # cs) sub \<or> py_in sub cs)"

section \<open>RiskModels (modules/risk\_models.py)\<close>

subsection \<open>Altman Z-Score\<close>

definition altman_z_score ::
  "real \<Rightarrow> real \<Rightarrow> real \<Rightarrow> real \<Rightarrow> real \<Rightarrow> real \<Rightarrow> py_error + real" where
  "altman_z_score working_capital retained_earnings ebit market_value_equity
       total_assets total_liabilities =
     (if total_assets = 0 then Inr 0
      else
        and_then (truediv working_capital total_assets) (\<lambda>X1.
        and_then (truediv retained_earnings total_assets) (\<lambda>X2.
        and_then (truediv ebit total_assets) (\<lambda>X3.
        and_then (if total_liabilities > 0
                  then truediv market_value_equity total_liabilities else Inr 0) (\<lambda>X4.
        let X5 = total_assets;
            z_score = 1.2 * X1 + 1.4 * X2 + 3.3 * X3 + 0.6 * X4 + 1.0 * X5
        in Inr z_score)))))"

definition interpret_altman_z_score :: "real \<Rightarrow> string \<times> string" where
  "interpret_altman_z_score z_score =
     (if z_score > 2.99 then (''Safe Zone'', ''Low bankruptcy risk'')
      else if z_score > 1.81 then (''Grey Zone'', ''Moderate bankruptcy risk'')
      else (''Distress Zone'', ''High bankruptcy risk''))"

subsection \<open>Rule-based credit score\<close>

text \<open>
  The score before the final \<open>min(score, 100)\<close>: four \<open>if\<close> statements in sequence, each
  adding 25 to the running score.
\<close>

definition credit_score_points :: "(string \<rightharpoonup> real) \<Rightarrow> int" where
  "credit_score_points financial_ratios =
     (let score = 0;
          score = (if dict_get financial_ratios ''current_ratio'' 0 > 1.5
                   then score + 25 else score);
          score = (if dict_get financial_ratios ''debt_to_equity'' 0 < 2.0
                   then score + 25 else score);
          score = (if dict_get financial_ratios ''return_on_assets'' 0 > 0.05
                   then score + 25 else score);
          score = (if dict_get financial_ratios ''net_profit_margin'' 0 > 0.1
                   then score + 25 else score)
      in score)"

definition machine_learning_credit_scoring :: "(string \<rightharpoonup> real) \<Rightarrow> int" where
  "machine_learning_credit_scoring financial_ratios =
     min (credit_score_points financial_ratios) 100"

subsection \<open>Structural (Merton) model\<close>

text \<open>
  The arguments are Python numbers, so \<open>company_value / debt_face_value\<close> raises
  \<open>ZeroDivisionError\<close> on a zero divisor, and \<open>(risk_free_rate + 0.5 * volatility**2) *
  time_to_maturity\<close> is a finite number. From \<open>np.log\<close> and \<open>np.sqrt\<close> on, the values are
  numpy scalars. \<open>merton_try\<close> is the body of the \<open>try\<close>.
\<close>

definition merton_try ::
  "(real \<Rightarrow> real) \<Rightarrow> real \<Rightarrow> real \<Rightarrow> real \<Rightarrow> real \<Rightarrow> real
     \<Rightarrow> py_error + (npfloat \<times> npfloat)" where
  "merton_try Phi company_value debt_face_value risk_free_rate volatility time_to_maturity =
     and_then (truediv company_value debt_face_value) (\<lambda>ratio.
       let d1 = np_div
                  (np_add (np_log ratio)
                     (Num ((risk_free_rate + 0.5 * volatility ^ 2) * time_to_maturity)))
                  (np_mul (Num volatility) (np_sqrt time_to_maturity));
           d2 = np_sub d1 (np_mul (Num volatility) (np_sqrt time_to_maturity));
           probability_default = norm_cdf Phi (np_neg d2);
           distance_to_default = d2
       in Inr (probability_default, distance_to_default))"

text \<open>The bare \<open>except:\<close> answers every exception with the default pair.\<close>

definition merton_structural_model ::
  "(real \<Rightarrow> real) \<Rightarrow> real \<Rightarrow> real \<Rightarrow> real \<Rightarrow> real \<Rightarrow> real \<Rightarrow> npfloat \<times> npfloat" where
  "merton_structural_model Phi company_value debt_face_value risk_free_rate volatility
       time_to_maturity =
     (case merton_try Phi company_value debt_face_value risk_free_rate volatility
             time_to_maturity of
        Inl e \<Rightarrow> (Num 0.5, Num 0)
      | Inr result \<Rightarrow> result)"

subsection \<open>Monte Carlo cash-flow simulation\<close>

text \<open>
  numpy's global generator is a state \<open>'g\<close> that every draw reads and replaces.
  \<open>np.random.seed\<close> and \<open>np.random.normal\<close> are parameters of the model: \<open>seed n\<close> is the
  state after seeding with \<open>n\<close>, and \<open>normal g loc scale size\<close> is the sample drawn in
  state \<open>g\<close> with the state after it, or the exception it raises (a negative scale). The
  simulation takes the state it finds and returns the matrix with the state it leaves.
\<close>

text \<open>\<open>np.mean\<close>; on an empty sample numpy answers \<open>nan\<close> with a warning, and every later
  row is empty as well.\<close>

definition np_mean :: "real list \<Rightarrow> real" where
  "np_mean xs = sum_list xs / real (length xs)"

fun simulate_periods ::
  "('g \<Rightarrow> real \<Rightarrow> real \<Rightarrow> nat \<Rightarrow> py_error + (real list \<times> 'g)) \<Rightarrow> real \<Rightarrow> nat \<Rightarrow> nat list
     \<Rightarrow> 'g \<Rightarrow> real list list \<Rightarrow> real \<Rightarrow> py_error + (real list list \<times> 'g)" where
  "simulate_periods normal volatility simulations [] g simulations_data current_cashflow =
     Inr (simulations_data, g)"
| "simulate_periods normal volatility simulations (t # ts) g simulations_data current_cashflow =
     and_then (normal g 0 volatility simulations) (\<lambda>(random_shocks, g').
       let simulated_cashflows = map (\<lambda>shock. current_cashflow * (1 + shock)) random_shocks
       in simulate_periods normal volatility simulations ts g'
            (simulations_data[t := simulated_cashflows]) (np_mean simulated_cashflows))"

definition monte_carlo_cashflow_simulation ::
  "(nat \<Rightarrow> 'g) \<Rightarrow> ('g \<Rightarrow> real \<Rightarrow> real \<Rightarrow> nat \<Rightarrow> py_error + (real list \<times> 'g)) \<Rightarrow> 'g
     \<Rightarrow> real \<Rightarrow> real \<Rightarrow> nat \<Rightarrow> nat \<Rightarrow> py_error + (real list list \<times> 'g)" where
  "monte_carlo_cashflow_simulation seed normal g base_cashflow volatility periods simulations =
     (let g = seed 42;
          simulations_data = replicate periods (replicate simulations 0);
          current_cashflow = base_cashflow
      in simulate_periods normal volatility simulations [0..<periods] g simulations_data
           current_cashflow)"

text \<open>
  A generator to run the simulation on: its state is a counter, and a draw in state \<open>g\<close>
  returns \<open>size\<close> copies of \<open>loc + scale * g\<close> and advances the counter.
\<close>

definition counter_normal :: "nat \<Rightarrow> real \<Rightarrow> real \<Rightarrow> nat \<Rightarrow> py_error + (real list \<times> nat)" where
  "counter_normal g loc scale n = Inr (replicate n (loc + scale * real g), Suc g)"

section \<open>FinancialAnalyzer (modules/financial\_analysis.py)\<close>

record liquidity_ratios =
  current_ratio :: real
  quick_ratio :: real

record leverage_ratios =
  debt_to_equity :: real
  debt_to_assets :: real

definition calculate_liquidity_ratios :: "real \<Rightarrow> real \<Rightarrow> py_error + liquidity_ratios" where
  "calculate_liquidity_ratios current_assets current_liabilities =
     (if current_liabilities = 0 then Inr \<lparr>current_ratio = 0, quick_ratio = 0\<rparr>
      else
        and_then (truediv current_assets current_liabilities) (\<lambda>cr.
        and_then (truediv current_assets current_liabilities) (\<lambda>qr.
        Inr \<lparr>current_ratio = cr, quick_ratio = qr\<rparr>)))"

definition calculate_leverage_ratios ::
  "real \<Rightarrow> real \<Rightarrow> real \<Rightarrow> py_error + leverage_ratios" where
  "calculate_leverage_ratios total_liabilities total_assets equity =
     and_then (if equity > 0 then truediv total_liabilities equity else Inr 0) (\<lambda>dte.
     and_then (if total_assets > 0 then truediv total_liabilities total_assets else Inr 0) (\<lambda>dta.
     Inr \<lparr>debt_to_equity = dte, debt_to_assets = dta\<rparr>))"

record profitability_ratios =
  return_on_assets :: real
  return_on_equity :: real
  net_profit_margin :: real

record efficiency_ratios =
  asset_turnover :: real
  receivables_turnover :: real

definition calculate_profitability_ratios ::
  "real \<Rightarrow> real \<Rightarrow> real \<Rightarrow> real \<Rightarrow> py_error + profitability_ratios" where
  "calculate_profitability_ratios revenue net_income total_assets equity =
     and_then (if total_assets > 0 then truediv net_income total_assets else Inr 0) (\<lambda>roa.
     and_then (if equity > 0 then truediv net_income equity else Inr 0) (\<lambda>roe.
     and_then (if revenue > 0 then truediv net_income revenue else Inr 0) (\<lambda>net_margin.
     Inr \<lparr>return_on_assets = roa, return_on_equity = roe, net_profit_margin = net_margin\<rparr>)))"

definition calculate_efficiency_ratios ::
  "real \<Rightarrow> real \<Rightarrow> real \<Rightarrow> py_error + efficiency_ratios" where
  "calculate_efficiency_ratios revenue total_assets accounts_receivable =
     and_then (if total_assets > 0 then truediv revenue total_assets else Inr 0) (\<lambda>a_turn.
     and_then (if accounts_receivable > 0
               then truediv revenue accounts_receivable else Inr 0) (\<lambda>r_turn.
     Inr \<lparr>asset_turnover = a_turn, receivables_turnover = r_turn\<rparr>))"

section \<open>FinancialProjections (modules/projections.py)\<close>

subsection \<open>Loan repayment schedule\<close>

record schedule_row =
  month :: int
  payment :: real
  principal :: real
  interest :: real
  remaining_balance :: real

text \<open>The \<open>for month in range(1, repayment_period + 1)\<close> loop, threading \<open>remaining_balance\<close>.\<close>

fun schedule_rows :: "real \<Rightarrow> real \<Rightarrow> real \<Rightarrow> int list \<Rightarrow> schedule_row list" where
  "schedule_rows monthly_rate monthly_payment balance [] = []"
| "schedule_rows monthly_rate monthly_payment balance (m # months) =
     (let interest_payment = balance * monthly_rate;
          principal_payment = monthly_payment - interest_payment;
          balance' = balance - principal_payment
      in \<lparr>month = m, payment = monthly_payment, principal = principal_payment,
          interest = interest_payment, remaining_balance = max 0 balance'\<rparr>
         # schedule_rows monthly_rate monthly_payment balance' months)"

text \<open>The term is a month count, a natural number.\<close>

definition calculate_loan_repayment_schedule ::
  "real \<Rightarrow> real \<Rightarrow> nat \<Rightarrow> py_error + schedule_row list" where
  "calculate_loan_repayment_schedule loan_amount interest_rate repayment_period =
     (let monthly_rate = interest_rate / 12 / 100
      in and_then
           (truediv (loan_amount * monthly_rate * (1 + monthly_rate) ^ repayment_period)
                    ((1 + monthly_rate) ^ repayment_period - 1)) (\<lambda>monthly_payment.
         Inr (schedule_rows monthly_rate monthly_payment loan_amount
                (map int [1..<repayment_period + 1]))))"

text \<open>
  The balance the loop holds after \<open>k\<close> payments, before the floor at 0 that the row
  records: each month adds the interest and takes the payment off.
\<close>

fun balance_after :: "real \<Rightarrow> real \<Rightarrow> real \<Rightarrow> nat \<Rightarrow> real" where
  "balance_after r p b 0 = b"
| "balance_after r p b (Suc k) = balance_after r p b k * (1 + r) - p"

subsection \<open>Debt service coverage\<close>

text \<open>
  The income projection is a table: its rows carry the columns the DSCR reads, and
  \<open>has_interest_expense\<close> tells whether the table has an \<open>interest_expense\<close> column at all.
  Without the column \<open>income_row.get('interest_expense', 0)\<close> is 0 in every row and the
  field of the row is not read. The repayment schedule may be \<open>None\<close>.
\<close>

record income_row =
  year :: int
  ebitda :: real
  interest_expense :: real

record income_table =
  has_interest_expense :: bool
  income_rows :: "income_row list"

record dscr_row =
  dscr_year :: int
  dscr_ebitda :: real
  total_debt_service :: real
  dscr :: npfloat
  status :: string

definition get_annual_loan_payment :: "schedule_row list option \<Rightarrow> int \<Rightarrow> real" where
  "get_annual_loan_payment repayment_schedule yr =
     (case repayment_schedule of
        None \<Rightarrow> 0
      | Some rows \<Rightarrow>
          if rows = [] then 0
          else
            let start_month = (yr - 1) * 12 + 1;
                end_month = yr * 12;
                annual_payments =
                  filter (\<lambda>r. month r \<ge> start_month \<and> month r \<le> end_month) rows
            in if annual_payments \<noteq> [] then sum_list (map payment annual_payments) else 0)"

text \<open>One pass of the loop: the row appended to \<open>dscr_data\<close> for one income row.\<close>

definition dscr_entry :: "bool \<Rightarrow> schedule_row list option \<Rightarrow> income_row \<Rightarrow> dscr_row" where
  "dscr_entry has_interest repayment_schedule income =
     (let interest = (if has_interest then interest_expense income else 0);
          annual_loan_payment = get_annual_loan_payment repayment_schedule (year income);
          debt_service = interest + annual_loan_payment;
          ratio = (if debt_service > 0 then Num (ebitda income / debt_service) else PosInf)
      in \<lparr>dscr_year = year income, dscr_ebitda = ebitda income,
          total_debt_service = debt_service, dscr = ratio,
          status = (if np_ge ratio 1.25 then ''Adequate'' else ''Inadequate'')\<rparr>)"

definition calculate_debt_service_coverage_ratio ::
  "income_table \<Rightarrow> schedule_row list option \<Rightarrow> dscr_row list" where
  "calculate_debt_service_coverage_ratio income_projections repayment_schedule =
     map (dscr_entry (has_interest_expense income_projections) repayment_schedule)
       (income_rows income_projections)"

section \<open>DataProcessor (modules/data\_processing.py)\<close>

subsection \<open>Column mapping\<close>

text \<open>
  \<open>self.column_mappings\<close> is a dictionary literal, iterated in the order written. The
  \<open>column_mapping\<close> built by \<open>_map_column_names\<close> is a dictionary too: an assignment to a
  key that is already present replaces its value.
\<close>

definition column_mappings :: "(string \<times> string list) list" where
  "column_mappings =
     [(''revenue'', [''revenue'', ''sales'', ''turnover'', ''gross revenue'', ''total revenue'',
                     ''income'']),
      (''net_income'', [''net income'', ''net profit'', ''profit after tax'', ''pat'',
                        ''net profit after tax'']),
      (''total_assets'', [''total assets'', ''assets'', ''non-current assets'', ''current assets'',
                          ''fixed assets'']),
      (''total_liabilities'', [''total liabilities'', ''liabilities'', ''non-current liabilities'',
                               ''current liabilities'']),
      (''current_assets'', [''current assets'', ''inventories'', ''receivables'',
                            ''cash and cash equivalents'']),
      (''current_liabilities'', [''current liabilities'', ''payables'', ''short term debt'']),
      (''equity'', [''equity'', ''shareholders equity'', ''share capital'', ''retained earnings'']),
      (''gross_profit'', [''gross profit'', ''gross margin'']),
      (''operating_expenses'', [''operating expenses'', ''administrative expenses'',
                                ''selling expenses'']),
      (''ebit'', [''ebit'', ''operating profit'', ''profit before interest and tax'']),
      (''cogs'', [''cost of goods sold'', ''cogs'', ''cost of sales'']),
      (''cash_flow_operating'', [''operating cash flow'', ''cash from operations'',
                                 ''net cash from operating activities'']),
      (''cash_flow_investing'', [''investing cash flow'', ''cash from investing activities'']),
      (''cash_flow_financing'', [''financing cash flow'', ''cash from financing activities''])]"

text \<open>
  The three nested loops, innermost first: the synonyms of one key against one column
  (ended by \<open>break\<close> at the first match), the columns for one key, and the keys.
\<close>

fun match_possible_names ::
  "string \<Rightarrow> string \<Rightarrow> string \<Rightarrow> string list \<Rightarrow> (string \<times> string) list
     \<Rightarrow> (string \<times> string) list" where
  "match_possible_names standard_name col_name col_lower [] column_mapping = column_mapping"
| "match_possible_names standard_name col_name col_lower (possible_name # rest) column_mapping =
     (if py_in possible_name col_lower \<or> py_in col_lower possible_name
      then AList.update col_name standard_name column_mapping
      else match_possible_names standard_name col_name col_lower rest column_mapping)"

fun match_columns ::
  "string \<Rightarrow> string list \<Rightarrow> string list \<Rightarrow> (string \<times> string) list
     \<Rightarrow> (string \<times> string) list" where
  "match_columns standard_name possible_names [] column_mapping = column_mapping"
| "match_columns standard_name possible_names (col_name # cols) column_mapping =
     match_columns standard_name possible_names cols
       (match_possible_names standard_name col_name (strip (lower col_name)) possible_names
          column_mapping)"

fun build_column_mapping ::
  "(string \<times> string list) list \<Rightarrow> string list \<Rightarrow> (string \<times> string) list
     \<Rightarrow> (string \<times> string) list" where
  "build_column_mapping [] cols column_mapping = column_mapping"
| "build_column_mapping ((standard_name, possible_names) # rest) cols column_mapping =
     build_column_mapping rest cols
       (match_columns standard_name possible_names cols column_mapping)"

text \<open>
  \<open>df.rename(columns=column_mapping)\<close> replaces each label that is a key of the mapping;
  the table is given by its column labels, the cells are not touched.
\<close>

definition rename_columns :: "(string \<times> string) list \<Rightarrow> string list \<Rightarrow> string list" where
  "rename_columns column_mapping cols =
     map (\<lambda>c. case map_of column_mapping c of Some k \<Rightarrow> k | None \<Rightarrow> c) cols"

definition map_column_names :: "string list \<Rightarrow> string list" where
  "map_column_names cols =
     (let column_mapping = build_column_mapping column_mappings cols []
      in if column_mapping \<noteq> [] then rename_columns column_mapping cols else cols)"

text \<open>
  The matching rule on its own, to state what the loops compute: a label matches a key
  when it contains one of the key's synonyms or occurs in one, and \<open>matching_keys\<close> lists
  the keys of the table that a column matches, in the order of the table.
\<close>

definition matches :: "string list \<Rightarrow> string \<Rightarrow> bool" where
  "matches possible_names col_lower =
     list_ex (\<lambda>possible_name. py_in possible_name col_lower \<or> py_in col_lower possible_name)
       possible_names"

definition matching_keys :: "(string \<times> string list) list \<Rightarrow> string \<Rightarrow> string list" where
  "matching_keys table col_name =
     map fst (filter (\<lambda>(standard_name, possible_names).
        matches possible_names (strip (lower col_name))) table)"

subsection \<open>Statement type detection\<close>

definition income_indicators :: "string list" where
  "income_indicators = [''revenue'', ''sales'', ''cogs'', ''gross profit'', ''operating income'',
     ''net income'', ''ebit'', ''ebitda'']"

definition balance_indicators :: "string list" where
  "balance_indicators = [''assets'', ''liabilities'', ''equity'', ''current assets'',
     ''fixed assets'', ''inventory'']"

definition cashflow_indicators :: "string list" where
  "cashflow_indicators = [''operating cash flow'', ''investing cash flow'',
     ''financing cash flow'', ''cash flow'']"

text \<open>\<open>sum(1 for indicator in indicators if any(indicator in col for col in column_names))\<close>\<close>

definition indicator_score :: "string list \<Rightarrow> string list \<Rightarrow> nat" where
  "indicator_score indicators column_names =
     length (filter (\<lambda>indicator. list_ex (\<lambda>col. py_in indicator col) column_names) indicators)"

definition statement_scores :: "string list \<Rightarrow> (string \<times> nat) list" where
  "statement_scores cols =
     (let column_names = map lower cols
      in [(''income_statement'', indicator_score income_indicators column_names),
          (''balance_sheet'', indicator_score balance_indicators column_names),
          (''cash_flow'', indicator_score cashflow_indicators column_names)])"

definition best_types :: "string list \<Rightarrow> string list" where
  "best_types cols =
     (let scores = statement_scores cols;
          max_score = fold max (map snd scores) 0
      in map fst (filter (\<lambda>(stmt_type, score). score = max_score) scores))"

text \<open>
  The body of \<open>detect_financial_statement_type\<close> on the column labels of the table. Its
  \<open>except\<close> branch answers \<open>unknown\<close>; nothing in the body raises on a list of labels.
\<close>

definition detect_financial_statement_type :: "string list \<Rightarrow> string" where
  "detect_financial_statement_type cols =
     (let column_names = map lower cols;
          scores = statement_scores cols;
          max_score = fold max (map snd scores) 0
      in if max_score > 0 then
           (if length (best_types cols) = 1 then hd (best_types cols)
            else if list_ex (\<lambda>col. py_in ''cash flow'' col) column_names then ''cash_flow''
            else if list_ex (\<lambda>col. py_in ''assets'' col) column_names
                    \<and> list_ex (\<lambda>col. py_in ''liabilities'' col) column_names
                 then ''balance_sheet''
            else ''income_statement'')
         else ''unknown'')"

subsection \<open>Metric extraction\<close>

text \<open>
  A table has its column labels and its rows, each row the cells under the labels in order.
  A cell is a number, a missing value (\<open>NaN\<close> or \<open>None\<close>, what \<open>pd.notna\<close> rejects) or
  text.
\<close>

datatype cell = Number real | Missing | Text string

record dataframe =
  columns :: "string list"
  rows :: "cell list list"

text \<open>\<open>.iloc[i]\<close>: positions count from the end when negative; out of range raises.\<close>

definition iloc :: "'a list \<Rightarrow> int \<Rightarrow> py_error + 'a" where
  "iloc xs i =
     (if 0 \<le> i \<and> i < int (length xs) then Inr (xs ! nat i)
      else if i < 0 \<and> - int (length xs) \<le> i then Inr (xs ! nat (int (length xs) + i))
      else Inl IndexError)"

text \<open>
  \<open>latest_row[metric]\<close>: the cells of the row under that label. One cell is a scalar;
  several (a duplicated label) are a Series, whose truth value in \<open>pd.notna(value) and ...\<close>
  raises \<open>ValueError\<close>.
\<close>

definition row_values :: "string list \<Rightarrow> cell list \<Rightarrow> string \<Rightarrow> cell list" where
  "row_values labels row label = map snd (filter (\<lambda>(c, v). c = label) (zip labels row))"

definition core_metrics :: "string list" where
  "core_metrics = [''revenue'', ''net_income'', ''total_assets'', ''total_liabilities'',
     ''current_assets'', ''current_liabilities'', ''equity'', ''gross_profit'',
     ''operating_expenses'', ''ebit'', ''cogs'']"

text \<open>
  \<open>df.sort_values(by=..., ascending=False)\<close> and \<open>float\<close> on text are parameters of the
  model: each returns its result or the exception it raises.
\<close>

definition select_latest_row ::
  "(dataframe \<Rightarrow> string \<Rightarrow> py_error + dataframe) \<Rightarrow> dataframe
     \<Rightarrow> py_error + (string list \<times> cell list)" where
  "select_latest_row sort_values_desc df =
     (if length (rows df) > 1 then
        (let date_columns =
               filter (\<lambda>col. py_in ''date'' (lower col) \<or> py_in ''year'' (lower col))
                 (columns df)
         in if date_columns \<noteq> [] then
              and_then (sort_values_desc df (hd date_columns)) (\<lambda>df_sorted.
              and_then (iloc (rows df_sorted) 0) (\<lambda>latest_row.
              Inr (columns df_sorted, latest_row)))
            else
              and_then (iloc (rows df) (- 1)) (\<lambda>latest_row. Inr (columns df, latest_row)))
      else and_then (iloc (rows df) 0) (\<lambda>latest_row. Inr (columns df, latest_row)))"

fun extract_loop ::
  "(string \<Rightarrow> py_error + real) \<Rightarrow> string list \<Rightarrow> string list \<Rightarrow> cell list \<Rightarrow> string list
     \<Rightarrow> (string \<rightharpoonup> real) \<Rightarrow> py_error + (string \<rightharpoonup> real)" where
  "extract_loop py_float df_columns labels latest_row [] metrics = Inr metrics"
| "extract_loop py_float df_columns labels latest_row (metric # rest) metrics =
     (if metric \<in> set df_columns then
        (case row_values labels latest_row metric of
           [] \<Rightarrow> Inl KeyError
         | [Missing] \<Rightarrow> extract_loop py_float df_columns labels latest_row rest metrics
         | [Number x] \<Rightarrow>
             if x \<noteq> 0
             then extract_loop py_float df_columns labels latest_row rest (metrics(metric \<mapsto> x))
             else extract_loop py_float df_columns labels latest_row rest metrics
         | [Text s] \<Rightarrow>
             and_then (py_float s) (\<lambda>x.
               extract_loop py_float df_columns labels latest_row rest (metrics(metric \<mapsto> x)))
         | _ \<Rightarrow> Inl ValueError)
      else extract_loop py_float df_columns labels latest_row rest metrics)"

definition derive_metrics :: "string \<Rightarrow> (string \<rightharpoonup> real) \<Rightarrow> (string \<rightharpoonup> real)" where
  "derive_metrics statement_type metrics =
     (if statement_type = ''income_statement'' then
        (let metrics =
               (case (metrics ''revenue'', metrics ''cogs'') of
                  (Some revenue, Some cogs) \<Rightarrow> metrics(''gross_profit'' \<mapsto> revenue - cogs)
                | _ \<Rightarrow> metrics)
         in (case (metrics ''gross_profit'', metrics ''operating_expenses'') of
               (Some gross_profit, Some opex) \<Rightarrow> metrics(''ebit'' \<mapsto> gross_profit - opex)
             | _ \<Rightarrow> metrics))
      else if statement_type = ''balance_sheet'' then
        (case (metrics ''total_assets'', metrics ''total_liabilities'') of
           (Some assets, Some liabilities) \<Rightarrow>
             (let calculated_equity = assets - liabilities
              in if metrics ''equity'' = None
                    \<or> \<bar>calculated_equity - dict_get metrics ''equity'' 0\<bar> > 0.01
                 then metrics(''equity'' \<mapsto> calculated_equity) else metrics)
         | _ \<Rightarrow> metrics)
      else metrics)"

text \<open>
  \<open>extract_try\<close> is the body of the \<open>try\<close>. Every exception of the model is an
  \<open>Exception\<close>, so the handler \<open>except Exception\<close> catches it and returns \<open>{}\<close>.
\<close>

definition extract_try ::
  "(dataframe \<Rightarrow> string \<Rightarrow> py_error + dataframe) \<Rightarrow> (string \<Rightarrow> py_error + real)
     \<Rightarrow> dataframe \<Rightarrow> string \<Rightarrow> py_error + (string \<rightharpoonup> real)" where
  "extract_try sort_values_desc py_float df statement_type =
     and_then (select_latest_row sort_values_desc df) (\<lambda>(labels, latest_row).
     and_then (extract_loop py_float (columns df) labels latest_row core_metrics Map.empty)
       (\<lambda>metrics.
     Inr (derive_metrics statement_type metrics)))"

definition extract_financial_metrics ::
  "(dataframe \<Rightarrow> string \<Rightarrow> py_error + dataframe) \<Rightarrow> (string \<Rightarrow> py_error + real)
     \<Rightarrow> dataframe \<Rightarrow> string \<Rightarrow> py_error + (string \<rightharpoonup> real)" where
  "extract_financial_metrics sort_values_desc py_float df statement_type =
     (case extract_try sort_values_desc py_float df statement_type of
        Inl e \<Rightarrow> Inr Map.empty
      | Inr metrics \<Rightarrow> Inr metrics)"

section \<open>Properties\<close>

subsection \<open>Altman Z-Score\<close>

text \<open>
  C4. With \<open>total_assets = 0\<close> the score is exactly 0 and no division is attempted; otherwise
  no division fails and the score is \<open>1.2 X1 + 1.4 X2 + 3.3 X3 + 0.6 X4 + 1.0 X5\<close>, where
  \<open>X4\<close> is 0 unless \<open>total_liabilities\<close> is positive and \<open>X5\<close> is \<open>total_assets\<close> itself. The
  zone is Safe above 2.99, Grey in \<open>(1.81, 2.99]\<close> and Distress up to 1.81.
\<close>

theorem altman_z_score_spec:
  "altman_z_score wc rearn ebit mve 0 liab = Inr 0
   \<and> (ta \<noteq> 0 \<longrightarrow>
        altman_z_score wc rearn ebit mve ta liab =
          Inr (1.2 * (wc / ta) + 1.4 * (rearn / ta) + 3.3 * (ebit / ta)
               + 0.6 * (if liab > 0 then mve / liab else 0) + 1.0 * ta))
   \<and> (z > 2.99 \<longrightarrow> fst (interpret_altman_z_score z) = ''Safe Zone'')
   \<and> (1.81 < z \<and> z \<le> 2.99 \<longrightarrow> fst (interpret_altman_z_score z) = ''Grey Zone'')
   \<and> (z \<le> 1.81 \<longrightarrow> fst (interpret_altman_z_score z) = ''Distress Zone'')"
  by (simp add: altman_z_score_def interpret_altman_z_score_def truediv_def)

theorem altman_z_score_spec_witness:
  "altman_z_score 1 1 1 1 0 4 = Inr 0
   \<and> altman_z_score 2 4 6 1 2 4 = Inr (1.2 * 1 + 1.4 * 2 + 3.3 * 3 + 0.6 * (1 / 4) + 1.0 * 2)
   \<and> fst (interpret_altman_z_score 3) = ''Safe Zone''
   \<and> fst (interpret_altman_z_score 2.99) = ''Grey Zone''
   \<and> fst (interpret_altman_z_score 1.81) = ''Distress Zone''"
  using altman_z_score_spec [of 1 1 1 1 4 2 3]
    altman_z_score_spec [of 2 4 6 1 4 2 "2.99"]
    altman_z_score_spec [of 2 4 6 1 4 2 "1.81"]
  by simp

subsection \<open>Rule-based credit score\<close>

text \<open>
  C10. The credit score is 25 times the number of the four thresholds the ratios pass
  (\<open>current_ratio > 1.5\<close>, \<open>debt_to_equity < 2.0\<close>, \<open>return_on_assets > 0.05\<close>,
  \<open>net_profit_margin > 0.1\<close>, a missing ratio counting as 0), so it is one of 0, 25, 50,
  75, 100, and the cap at 100 returns the sum unchanged.
\<close>

theorem credit_score_spec:
  "credit_score_points fr =
     25 * (of_bool (dict_get fr ''current_ratio'' 0 > 1.5)
           + of_bool (dict_get fr ''debt_to_equity'' 0 < 2.0)
           + of_bool (dict_get fr ''return_on_assets'' 0 > 0.05)
           + of_bool (dict_get fr ''net_profit_margin'' 0 > 0.1))
   \<and> machine_learning_credit_scoring fr \<in> {0, 25, 50, 75, 100}
   \<and> machine_learning_credit_scoring fr = credit_score_points fr"
  by (simp add: machine_learning_credit_scoring_def credit_score_points_def Let_def)

theorem credit_score_spec_witness:
  "machine_learning_credit_scoring
     [''current_ratio'' \<mapsto> 2, ''debt_to_equity'' \<mapsto> 3, ''return_on_assets'' \<mapsto> 0.06] = 50
   \<and> machine_learning_credit_scoring Map.empty = 25"
  using credit_score_spec [of "[''current_ratio'' \<mapsto> 2, ''debt_to_equity'' \<mapsto> 3, ''return_on_assets'' \<mapsto> 0.06]"]
    credit_score_spec [of Map.empty]
  by (simp add: dict_get_def)

subsection \<open>Ratios\<close>

text \<open>
  No ratio computation fails: each division stands behind a guard on its denominator, and
  the guarded branch yields 0.
\<close>

lemma ratios_never_fail:
  "(\<exists>r. calculate_liquidity_ratios ca cl = Inr r)
   \<and> (\<exists>r. calculate_profitability_ratios revenue ni ta eq = Inr r)
   \<and> (\<exists>r. calculate_leverage_ratios liab ta eq = Inr r)
   \<and> (\<exists>r. calculate_efficiency_ratios revenue ta ar = Inr r)"
  by (simp add: calculate_liquidity_ratios_def calculate_profitability_ratios_def
      calculate_leverage_ratios_def calculate_efficiency_ratios_def truediv_def)

text \<open>
  C6, as the spec states it, fails: the ratios are quotients of the inputs, so a negative
  numerator over a positive denominator gives a negative ratio. Here \<open>current_assets = -1\<close>
  over \<open>current_liabilities = 1\<close>, and \<open>total_liabilities = -1\<close> over \<open>equity = 1\<close>.
\<close>

theorem ratios_nonneg_counterexample:
  "calculate_liquidity_ratios (- 1) 1 = Inr \<lparr>current_ratio = - 1, quick_ratio = - 1\<rparr>
   \<and> calculate_leverage_ratios (- 1) 1 1 = Inr \<lparr>debt_to_equity = - 1, debt_to_assets = - 1\<rparr>
   \<and> \<not> (0::real) \<le> - 1"
  by (simp add: calculate_liquidity_ratios_def calculate_leverage_ratios_def truediv_def)

text \<open>
  C6, amended. For all inputs the two computations return (no division by zero): the
  current ratio is 0 when \<open>current_liabilities = 0\<close>, and debt-to-equity is 0 when \<open>equity\<close>
  is not positive. The current ratio is non-negative when \<open>current_assets\<close> and
  \<open>current_liabilities\<close> are non-negative, and debt-to-equity is non-negative when
  \<open>total_liabilities\<close> is non-negative.
\<close>

theorem ratios_nonneg:
  "(\<exists>r. calculate_liquidity_ratios ca cl = Inr r
        \<and> (cl = 0 \<longrightarrow> current_ratio r = 0)
        \<and> (0 \<le> ca \<and> 0 \<le> cl \<longrightarrow> 0 \<le> current_ratio r))
   \<and> (\<exists>r. calculate_leverage_ratios liab ta eq = Inr r
        \<and> (eq \<le> 0 \<longrightarrow> debt_to_equity r = 0)
        \<and> (0 \<le> liab \<longrightarrow> 0 \<le> debt_to_equity r))"
  by (simp add: calculate_liquidity_ratios_def calculate_leverage_ratios_def truediv_def)

theorem ratios_nonneg_witness:
  "(\<exists>r. calculate_liquidity_ratios 3 2 = Inr r \<and> 0 \<le> current_ratio r)
   \<and> (\<exists>r. calculate_liquidity_ratios 3 0 = Inr r \<and> current_ratio r = 0)
   \<and> (\<exists>r. calculate_leverage_ratios 5 8 2 = Inr r \<and> 0 \<le> debt_to_equity r)
   \<and> (\<exists>r. calculate_leverage_ratios 5 8 0 = Inr r \<and> debt_to_equity r = 0)"
  using ratios_nonneg [of 3 2 5 8 2] ratios_nonneg [of 3 0 5 8 0]
  by simp blast

subsection \<open>Column mapping\<close>

text \<open>
  The loops of \<open>_map_column_names\<close> run over the canonical keys outermost and assign
  \<open>column_mapping[col_name]\<close> at every key whose synonyms match, so a later key replaces an
  earlier one: a column ends with the last matching key.
\<close>

lemma map_of_match_possible_names:
  "map_of (match_possible_names std col cl ps m) =
     (if matches ps cl then (map_of m)(col \<mapsto> std) else map_of m)"
  by (induction ps) (auto simp: matches_def update_conv')

lemma map_of_match_columns:
  "map_of (match_columns std ps cols m) c =
     (if c \<in> set cols \<and> matches ps (strip (lower c)) then Some std else map_of m c)"
  by (induction cols arbitrary: m) (auto simp: map_of_match_possible_names)

lemma map_of_build_column_mapping:
  "map_of (build_column_mapping table cols m) c =
     (if c \<in> set cols \<and> matching_keys table c \<noteq> []
      then Some (last (matching_keys table c)) else map_of m c)"
proof (induction table arbitrary: m)
  case Nil
  then show ?case by (simp add: matching_keys_def)
next
  case (Cons entry table)
  obtain std ps where entry: "entry = (std, ps)" by (cases entry)
  show ?case
    unfolding entry build_column_mapping.simps Cons.IH
    by (auto simp: map_of_match_columns matching_keys_def)
qed

lemma map_column_names_last_match:
  "map_column_names cols =
     map (\<lambda>c. if matching_keys column_mappings c = [] then c
               else last (matching_keys column_mappings c)) cols"
proof -
  let ?cm = "build_column_mapping column_mappings cols []"
  have look: "map_of ?cm c = (if c \<in> set cols \<and> matching_keys column_mappings c \<noteq> []
      then Some (last (matching_keys column_mappings c)) else None)" for c
    by (simp add: map_of_build_column_mapping)
  have ren: "rename_columns ?cm cols = map (\<lambda>c. if matching_keys column_mappings c = [] then c
               else last (matching_keys column_mappings c)) cols"
    unfolding rename_columns_def by (rule map_cong) (auto simp: look)
  show ?thesis
  proof (cases "?cm = []")
    case True
    then have "map_of ?cm c = None" for c by simp
    then have "\<forall>c\<in>set cols. matching_keys column_mappings c = []"
      using look by (metis option.distinct(1))
    then have "map (\<lambda>c. if matching_keys column_mappings c = [] then c
               else last (matching_keys column_mappings c)) cols = cols"
      by (simp add: map_idI)
    with True show ?thesis by (simp add: map_column_names_def)
  next
    case False
    then show ?thesis using ren by (simp add: map_column_names_def)
  qed
qed

text \<open>
  C1, as the spec states it, fails. The label \<open>assets\<close> matches \<open>total_assets\<close> (it is the
  synonym \<open>assets\<close>) and, later in the key order, \<open>current_assets\<close> (it occurs in the synonym
  \<open>current assets\<close>); the column is renamed to \<open>current_assets\<close>, not to the first match.
\<close>

theorem map_column_names_counterexample:
  "matching_keys column_mappings ''assets'' = [''total_assets'', ''current_assets'']
   \<and> map_column_names [''assets''] = [''current_assets'']
   \<and> map_column_names [''assets''] \<noteq> [''total_assets'']"
  by code_simp

text \<open>
  C1, amended. A column matches a canonical key when its lowercased, trimmed label (trimmed
  as \<open>str.strip\<close> does, the no-break space included) contains one of the key's synonyms or
  occurs in one. Every column is renamed to exactly one label:
  the last canonical key, in the fixed key order, that it matches, or its own label when it
  matches none. So \<open>Net Profit After Tax\<close> becomes \<open>net_income\<close>, and \<open>assets\<close> alone
  becomes \<open>current_assets\<close>.
\<close>

theorem map_column_names_spec:
  "map_column_names cols =
     map (\<lambda>c. if matching_keys column_mappings c = [] then c
               else last (matching_keys column_mappings c)) cols
   \<and> matching_keys column_mappings c =
       map fst (filter (\<lambda>(standard_name, possible_names).
         list_ex (\<lambda>possible_name. py_in possible_name (strip (lower c))
                                   \<or> py_in (strip (lower c)) possible_name) possible_names)
         column_mappings)
   \<and> map_column_names [''Net Profit After Tax''] = [''net_income'']
   \<and> map_column_names [''assets''] = [''current_assets'']"
proof -
  have "map_column_names [''Net Profit After Tax''] = [''net_income'']"
    by code_simp
  moreover have "map_column_names [''assets''] = [''current_assets'']"
    by code_simp
  ultimately show ?thesis
    using map_column_names_last_match [of cols]
    by (simp add: matching_keys_def matches_def)
qed

text \<open>
  The rule at work on labels that need trimming: blanks around \<open>Current Assets\<close>, a
  trailing no-break space after \<open>Tax\<close> (which then matches \<open>net_income\<close> and, last, \<open>ebit\<close>)
  and a leading next-line control before \<open>Sales\<close> (which matches \<open>revenue\<close> and, last,
  \<open>cogs\<close>).
\<close>

lemma strip_lower_examples:
  "strip (lower ''  Current Assets '') = ''current assets''
   \<and> strip (lower (''Tax'' @ [CHR 0xA0])) = ''tax''
   \<and> strip (lower ([CHR 0x85] @ ''Sales'' @ [CHR 0x09])) = ''sales''
   \<and> lower [CHR 0xC9, CHR 0xD7, CHR 0xDF] = [CHR 0xE9, CHR 0xD7, CHR 0xDF]"
  by code_simp

theorem map_column_names_spec_witness:
  "map_column_names [''Total Assets'', ''Region'', ''  Current Assets '', ''Tax'' @ [CHR 0xA0],
       [CHR 0x85] @ ''Sales'' @ [CHR 0x09]] =
     [''total_assets'', ''Region'', ''current_assets'', ''ebit'', ''cogs'']"
proof -
  have "matching_keys column_mappings ''Total Assets'' = [''total_assets'']"
    by code_simp
  moreover have "matching_keys column_mappings ''Region'' = []"
    by code_simp
  moreover have "matching_keys column_mappings ''  Current Assets '' =
      [''total_assets'', ''current_assets'']"
    by code_simp
  moreover have "matching_keys column_mappings (''Tax'' @ [CHR 0xA0]) = [''net_income'', ''ebit'']"
    by code_simp
  moreover have "matching_keys column_mappings ([CHR 0x85] @ ''Sales'' @ [CHR 0x09]) =
      [''revenue'', ''cogs'']"
    by code_simp
  ultimately show ?thesis
    using map_column_names_spec
      [of "[''Total Assets'', ''Region'', ''  Current Assets '', ''Tax'' @ [CHR 0xA0],
            [CHR 0x85] @ ''Sales'' @ [CHR 0x09]]" "''x''"]
    by simp
qed

subsection \<open>Statement type detection\<close>

text \<open>
  C5, as the spec states it, fails: on these four labels the income score is 1, not 2. The
  indicator \<open>net income\<close> does not occur in \<open>net profit after tax\<close>; only \<open>revenue\<close> counts.
\<close>

theorem detect_scenario_counterexample:
  "statement_scores [''Total Revenue'', ''Net Profit After Tax'', ''Total Assets'',
       ''Total Liabilities'']
     = [(''income_statement'', 1), (''balance_sheet'', 2), (''cash_flow'', 0)]
   \<and> \<not> py_in ''net income'' (lower ''Net Profit After Tax'')"
  by code_simp

text \<open>
  C5, amended. On the labels \<open>Total Revenue\<close>, \<open>Net Profit After Tax\<close>, \<open>Total Assets\<close>,
  \<open>Total Liabilities\<close> the scores are income 1, balance sheet 2, cash flow 0; the balance
  sheet alone holds the maximum, so it is returned as the single best type and the tie-break
  is not consulted.
\<close>

theorem detect_scenario:
  "statement_scores [''Total Revenue'', ''Net Profit After Tax'', ''Total Assets'',
       ''Total Liabilities'']
     = [(''income_statement'', 1), (''balance_sheet'', 2), (''cash_flow'', 0)]
   \<and> best_types [''Total Revenue'', ''Net Profit After Tax'', ''Total Assets'',
       ''Total Liabilities''] = [''balance_sheet'']
   \<and> detect_financial_statement_type [''Total Revenue'', ''Net Profit After Tax'',
       ''Total Assets'', ''Total Liabilities''] = ''balance_sheet''"
  by code_simp

subsection \<open>Loan repayment schedule\<close>

text \<open>
  C2 fails at an interest rate of 0, a rate the claim counts as valid: the payment formula
  divides by \<open>(1 + r)^n - 1\<close>, which is 0 there, and the function raises instead of
  returning a schedule. This holds for every principal and term.
\<close>

theorem zero_rate_schedule_raises:
  "calculate_loan_repayment_schedule 5000000 0 36 = Inl ZeroDivisionError
   \<and> calculate_loan_repayment_schedule loan_amount 0 repayment_period = Inl ZeroDivisionError"
  by (simp add: calculate_loan_repayment_schedule_def truediv_def)

lemma balance_after_shift:
  "balance_after r p (b * (1 + r) - p) k = balance_after r p b (Suc k)"
  by (induction k) simp_all

lemma length_schedule_rows: "length (schedule_rows r p b ms) = length ms"
  by (induction ms arbitrary: b) (simp_all add: Let_def)

lemma month_schedule_rows: "map month (schedule_rows r p b ms) = ms"
  by (induction ms arbitrary: b) (simp_all add: Let_def)

lemma step_balance: "b - (p - b * r) = b * (1 + r) - (p::real)"
  by (simp add: algebra_simps)

lemma schedule_rows_nth:
  "i < length ms \<Longrightarrow>
     schedule_rows r p b ms ! i =
       \<lparr>month = ms ! i, payment = p, principal = p - balance_after r p b i * r,
        interest = balance_after r p b i * r,
        remaining_balance = max 0 (balance_after r p b (Suc i))\<rparr>"
proof (induction ms arbitrary: b i)
  case Nil
  then show ?case by simp
next
  case (Cons m ms)
  show ?case
  proof (cases i)
    case 0
    then show ?thesis by (simp add: Let_def step_balance)
  next
    case (Suc j)
    with Cons.prems have "j < length ms" by simp
    from Cons.IH [OF this, of "b * (1 + r) - p"] Suc show ?thesis
      by (simp add: Let_def step_balance balance_after_shift del: balance_after.simps(2))
  qed
qed

lemma sum_principal:
  "sum_list (map principal (schedule_rows r p b ms)) = b - balance_after r p b (length ms)"
proof (induction ms arbitrary: b)
  case Nil
  then show ?case by simp
next
  case (Cons m ms)
  have "sum_list (map principal (schedule_rows r p b (m # ms)))
      = (p - b * r) + sum_list (map principal (schedule_rows r p (b * (1 + r) - p) ms))"
    by (simp add: Let_def step_balance)
  also have "\<dots> = (p - b * r) + ((b * (1 + r) - p)
      - balance_after r p (b * (1 + r) - p) (length ms))"
    by (simp only: Cons.IH)
  also have "\<dots> = b - balance_after r p b (Suc (length ms))"
    by (simp only: balance_after_shift) (simp add: algebra_simps)
  finally show ?case by simp
qed

lemma balance_after_closed:
  assumes "r \<noteq> 0"
  shows "balance_after r p b k = b * (1 + r) ^ k - p * ((1 + r) ^ k - 1) / r"
proof (induction k)
  case 0
  then show ?case by simp
next
  case (Suc k)
  have "balance_after r p b (Suc k)
      = (b * (1 + r) ^ k - p * ((1 + r) ^ k - 1) / r) * (1 + r) - p"
    by (simp add: Suc.IH)
  also have "\<dots> = b * (1 + r) ^ Suc k - p * ((1 + r) ^ Suc k - 1) / r"
    using assms by (simp add: field_simps)
  finally show ?case .
qed

lemma balance_after_annuity:
  assumes r: "0 < r" and n: "0 < n"
  shows "balance_after r (b * r * (1 + r) ^ n / ((1 + r) ^ n - 1)) b k
           = b * ((1 + r) ^ n - (1 + r) ^ k) / ((1 + r) ^ n - 1)"
proof -
  have "1 < (1 + r) ^ n"
    using r n by simp
  then have d: "(1 + r) ^ n - 1 \<noteq> 0" by simp
  from r have r0: "r \<noteq> 0" by simp
  show ?thesis
    unfolding balance_after_closed [OF r0]
    using d r0 by (simp add: field_simps)
qed

text \<open>
  With the annuity payment \<open>P r (1 + r)^n / ((1 + r)^n - 1)\<close> the balance after \<open>k\<close>
  payments is \<open>P ((1 + r)^n - (1 + r)^k) / ((1 + r)^n - 1)\<close>: never negative up to month
  \<open>n\<close>, decreasing, and 0 at month \<open>n\<close>.
\<close>

lemma annuity_balance_decreasing:
  assumes r: "0 < (r::real)" and n: "0 < (n::nat)" and b: "0 \<le> (b::real)"
  shows "b * ((1 + r) ^ n - (1 + r) ^ Suc k) / ((1 + r) ^ n - 1)
           \<le> b * ((1 + r) ^ n - (1 + r) ^ k) / ((1 + r) ^ n - 1)"
proof -
  have "1 < (1 + r) ^ n"
    using r n by simp
  then have d: "0 < (1 + r) ^ n - 1" by simp
  have "(1 + r) ^ k \<le> (1 + r) ^ Suc k"
    using r by (simp add: mult_le_cancel_right1)
  then have "b * ((1 + r) ^ n - (1 + r) ^ Suc k) \<le> b * ((1 + r) ^ n - (1 + r) ^ k)"
    using b by (intro mult_left_mono) simp_all
  then show ?thesis
    using d by (simp add: divide_right_mono)
qed

text \<open>
  For a positive rate the rest of C2 holds in exact arithmetic: the schedule has one row
  per month \<open>1..n\<close>, the remaining balance never increases, it is 0 in the last row, and
  the principal components add up to the principal.
\<close>

lemma schedule_positive_rate:
  assumes P: "0 < loan_amount" and rate: "0 < interest_rate" and n: "0 < repayment_period"
  shows "\<exists>rows. calculate_loan_repayment_schedule loan_amount interest_rate repayment_period
                  = Inr rows
           \<and> length rows = repayment_period
           \<and> map month rows = map int [1..<repayment_period + 1]
           \<and> (\<forall>i. Suc i < repayment_period \<longrightarrow>
                 remaining_balance (rows ! Suc i) \<le> remaining_balance (rows ! i))
           \<and> remaining_balance (rows ! (repayment_period - 1)) = 0
           \<and> sum_list (map principal rows) = loan_amount"
proof -
  define r where "r = interest_rate / 12 / 100"
  define q where "q = (1 + r) ^ repayment_period"
  define p where "p = loan_amount * r * q / (q - 1)"
  define ms where "ms = map int [1..<repayment_period + 1]"
  define rows where "rows = schedule_rows r p loan_amount ms"
  have r: "0 < r" using rate by (simp add: r_def)
  have "1 < q" unfolding q_def using r n by simp
  then have q1: "q - 1 \<noteq> 0" by simp
  have len_ms: "length ms = repayment_period" by (simp add: ms_def)
  have run: "calculate_loan_repayment_schedule loan_amount interest_rate repayment_period
      = Inr rows"
    using q1
    by (simp add: calculate_loan_repayment_schedule_def truediv_def Let_def rows_def p_def
        q_def r_def ms_def)
  have bal: "balance_after r p loan_amount k
      = loan_amount * ((1 + r) ^ repayment_period - (1 + r) ^ k) / ((1 + r) ^ repayment_period - 1)"
    for k
    unfolding p_def q_def by (rule balance_after_annuity [OF r n])
  have bal_n: "balance_after r p loan_amount repayment_period = 0"
    by (simp add: bal)
  have dec: "balance_after r p loan_amount (Suc k) \<le> balance_after r p loan_amount k" for k
    unfolding bal using r n P by (intro annuity_balance_decreasing) simp_all
  have rem: "remaining_balance (rows ! i) = max 0 (balance_after r p loan_amount (Suc i))"
    if "i < repayment_period" for i
    using that by (simp add: rows_def schedule_rows_nth len_ms)
  have len: "length rows = repayment_period"
    by (simp add: rows_def length_schedule_rows len_ms)
  have months: "map month rows = map int [1..<repayment_period + 1]"
    by (simp add: rows_def month_schedule_rows ms_def)
  have mono: "\<forall>i. Suc i < repayment_period \<longrightarrow>
      remaining_balance (rows ! Suc i) \<le> remaining_balance (rows ! i)"
  proof (intro allI impI)
    fix i assume i: "Suc i < repayment_period"
    then have "i < repayment_period" by simp
    with i show "remaining_balance (rows ! Suc i) \<le> remaining_balance (rows ! i)"
      using dec [of "Suc i"] by (simp add: rem max.coboundedI2)
  qed
  have last0: "remaining_balance (rows ! (repayment_period - 1)) = 0"
    using n rem [of "repayment_period - 1"] bal_n by simp
  have total: "sum_list (map principal rows) = loan_amount"
    by (simp add: rows_def sum_principal len_ms bal_n)
  from run len months mono last0 total show ?thesis by blast
qed

subsection \<open>Debt service coverage\<close>

text \<open>
  The engine works on non-negative amounts: the interest expense of a projected year and
  the payments of a schedule are not negative. The payments that fall into a year then add
  up to a non-negative amount.
\<close>

lemma get_annual_loan_payment_nonneg:
  assumes "\<forall>rows. schedule = Some rows \<longrightarrow> (\<forall>r \<in> set rows. 0 \<le> payment r)"
  shows "0 \<le> get_annual_loan_payment schedule yr"
proof (cases schedule)
  case None
  then show ?thesis by (simp add: get_annual_loan_payment_def)
next
  case (Some rows)
  with assms have pos: "\<forall>r \<in> set rows. 0 \<le> payment r" by simp
  have "0 \<le> sum_list (map payment (filter P rows))" for P
    using pos by (intro sum_list_nonneg) auto
  with Some show ?thesis by (simp add: get_annual_loan_payment_def Let_def)
qed

text \<open>
  C3. For a projection with non-negative interest expense and a schedule with non-negative
  payments, the series has one row per projected year, in order. The total debt service of
  a year is its interest expense (0 when the table has no such column) plus the payments of
  the schedule rows whose month lies in that year, and it is not negative. The ratio is
  \<open>ebitda / total_debt_service\<close> unless the total debt service is 0, and infinite when it is
  0. The status is Adequate exactly when the ratio is at least 1.25, the value 1.25
  included, and Inadequate otherwise.
\<close>

theorem dscr_spec:
  assumes interest:
      "has_interest_expense incomes \<longrightarrow>
         (\<forall>income \<in> set (income_rows incomes). 0 \<le> interest_expense income)"
    and payments: "\<forall>rows. schedule = Some rows \<longrightarrow> (\<forall>r \<in> set rows. 0 \<le> payment r)"
  shows
    "length (calculate_debt_service_coverage_ratio incomes schedule)
       = length (income_rows incomes)
     \<and> (\<forall>i < length (income_rows incomes).
          let income = income_rows incomes ! i;
              row = calculate_debt_service_coverage_ratio incomes schedule ! i;
              service = (if has_interest_expense incomes then interest_expense income else 0)
                        + get_annual_loan_payment schedule (year income)
          in dscr_year row = year income
             \<and> 0 \<le> service
             \<and> total_debt_service row = service
             \<and> (service \<noteq> 0 \<longrightarrow> dscr row = Num (ebitda income / service))
             \<and> (service = 0 \<longrightarrow> dscr row = PosInf)
             \<and> (status row = ''Adequate'' \<longleftrightarrow> np_ge (dscr row) 1.25)
             \<and> (status row = ''Inadequate'' \<longleftrightarrow> \<not> np_ge (dscr row) 1.25)
             \<and> (dscr row = Num 1.25 \<longrightarrow> status row = ''Adequate''))"
proof (intro conjI allI impI)
  show "length (calculate_debt_service_coverage_ratio incomes schedule)
       = length (income_rows incomes)"
    by (simp add: calculate_debt_service_coverage_ratio_def)
next
  fix i assume i: "i < length (income_rows incomes)"
  define income where "income = income_rows incomes ! i"
  define service where
    "service = (if has_interest_expense incomes then interest_expense income else 0)
               + get_annual_loan_payment schedule (year income)"
  have "income \<in> set (income_rows incomes)"
    using i by (simp add: income_def)
  with interest have "0 \<le> (if has_interest_expense incomes then interest_expense income else 0)"
    by simp
  moreover have "0 \<le> get_annual_loan_payment schedule (year income)"
    using payments by (rule get_annual_loan_payment_nonneg)
  ultimately have nonneg: "0 \<le> service"
    by (simp add: service_def)
  have row: "calculate_debt_service_coverage_ratio incomes schedule ! i
      = dscr_entry (has_interest_expense incomes) schedule income"
    using i by (simp add: calculate_debt_service_coverage_ratio_def income_def)
  show "let income = income_rows incomes ! i;
            row = calculate_debt_service_coverage_ratio incomes schedule ! i;
            service = (if has_interest_expense incomes then interest_expense income else 0)
                      + get_annual_loan_payment schedule (year income)
        in dscr_year row = year income
           \<and> 0 \<le> service
           \<and> total_debt_service row = service
           \<and> (service \<noteq> 0 \<longrightarrow> dscr row = Num (ebitda income / service))
           \<and> (service = 0 \<longrightarrow> dscr row = PosInf)
           \<and> (status row = ''Adequate'' \<longleftrightarrow> np_ge (dscr row) 1.25)
           \<and> (status row = ''Inadequate'' \<longleftrightarrow> \<not> np_ge (dscr row) 1.25)
           \<and> (dscr row = Num 1.25 \<longrightarrow> status row = ''Adequate'')"
    unfolding Let_def income_def [symmetric] row
    using nonneg unfolding service_def
    by (auto simp: dscr_entry_def Let_def)
qed

theorem dscr_spec_witness:
  "map dscr (calculate_debt_service_coverage_ratio
       \<lparr>has_interest_expense = True,
        income_rows = [\<lparr>year = 1, ebitda = 5, interest_expense = 1\<rparr>,
                       \<lparr>year = 2, ebitda = 5, interest_expense = 0\<rparr>,
                       \<lparr>year = 3, ebitda = 2, interest_expense = 2\<rparr>]\<rparr>
       (Some [\<lparr>month = 1, payment = 1, principal = 1, interest = 0, remaining_balance = 1\<rparr>,
              \<lparr>month = 12, payment = 2, principal = 1, interest = 1, remaining_balance = 0\<rparr>]))
     = [Num (5 / 4), PosInf, Num 1]
   \<and> map status (calculate_debt_service_coverage_ratio
       \<lparr>has_interest_expense = True,
        income_rows = [\<lparr>year = 1, ebitda = 5, interest_expense = 1\<rparr>,
                       \<lparr>year = 2, ebitda = 5, interest_expense = 0\<rparr>,
                       \<lparr>year = 3, ebitda = 2, interest_expense = 2\<rparr>]\<rparr>
       (Some [\<lparr>month = 1, payment = 1, principal = 1, interest = 0, remaining_balance = 1\<rparr>,
              \<lparr>month = 12, payment = 2, principal = 1, interest = 1, remaining_balance = 0\<rparr>]))
     = [''Adequate'', ''Adequate'', ''Inadequate'']"
proof -
  define incomes where "incomes =
      \<lparr>has_interest_expense = True,
        income_rows = [\<lparr>year = 1, ebitda = 5, interest_expense = 1\<rparr>,
                       \<lparr>year = 2, ebitda = 5, interest_expense = 0\<rparr>,
                       \<lparr>year = 3, ebitda = 2, interest_expense = 2\<rparr>]\<rparr>"
  define schedule where "schedule =
      Some [\<lparr>month = 1, payment = 1, principal = 1, interest = 0, remaining_balance = 1\<rparr>,
            \<lparr>month = 12, payment = 2, principal = 1, interest = 1, remaining_balance = 0\<rparr>]"
  define out where "out = calculate_debt_service_coverage_ratio incomes schedule"
  have pay: "get_annual_loan_payment schedule 1 = 3" "get_annual_loan_payment schedule 2 = 0"
      "get_annual_loan_payment schedule 3 = 0"
    by (simp_all add: get_annual_loan_payment_def schedule_def)
  have h1: "has_interest_expense incomes \<longrightarrow>
         (\<forall>income \<in> set (income_rows incomes). 0 \<le> interest_expense income)"
    by (simp add: incomes_def)
  have h2: "\<forall>rows. schedule = Some rows \<longrightarrow> (\<forall>r \<in> set rows. 0 \<le> payment r)"
    by (auto simp: schedule_def)
  note spec = dscr_spec [OF h1 h2, folded out_def]
  from spec have len: "length out = 3"
    by (simp add: incomes_def)
  from spec have rows: "\<forall>i < length (income_rows incomes).
          let income = income_rows incomes ! i;
              row = out ! i;
              service = (if has_interest_expense incomes then interest_expense income else 0)
                        + get_annual_loan_payment schedule (year income)
          in dscr_year row = year income
             \<and> 0 \<le> service
             \<and> total_debt_service row = service
             \<and> (service \<noteq> 0 \<longrightarrow> dscr row = Num (ebitda income / service))
             \<and> (service = 0 \<longrightarrow> dscr row = PosInf)
             \<and> (status row = ''Adequate'' \<longleftrightarrow> np_ge (dscr row) 1.25)
             \<and> (status row = ''Inadequate'' \<longleftrightarrow> \<not> np_ge (dscr row) 1.25)
             \<and> (dscr row = Num 1.25 \<longrightarrow> status row = ''Adequate'')"
    by (rule conjunct2)
  have r0: "dscr (out ! 0) = Num (5 / 4) \<and> status (out ! 0) = ''Adequate''"
    using rows [rule_format, of 0] pay by (simp add: Let_def incomes_def)
  have r1: "dscr (out ! 1) = PosInf \<and> status (out ! 1) = ''Adequate''"
    using rows [rule_format, of 1] pay by (simp add: Let_def incomes_def)
  have r2: "dscr (out ! 2) = Num 1 \<and> status (out ! 2) = ''Inadequate''"
    using rows [rule_format, of 2] pay by (simp add: Let_def incomes_def)
  obtain a b c where abc: "out = [a, b, c]"
    using len by (cases out; simp; rename_tac x xs; case_tac xs; simp;
        rename_tac y ys; case_tac ys; simp)
  from r0 r1 r2 have "map dscr out = [Num (5 / 4), PosInf, Num 1]
      \<and> map status out = [''Adequate'', ''Adequate'', ''Inadequate'']"
    unfolding abc by simp
  then show ?thesis
    unfolding out_def incomes_def schedule_def .
qed

subsection \<open>Structural (Merton) model\<close>

text \<open>
  In exact arithmetic the \<open>try\<close> body raises only on a zero debt face value, and then the
  fallback pair is returned. (On floats \<open>volatility**2\<close> can also overflow and raise for a
  huge volatility; the reals do not show that.)
\<close>

lemma merton_try_raises_iff:
  "merton_try Phi v d r s t = Inl e \<longleftrightarrow> d = 0 \<and> e = ZeroDivisionError"
  by (auto simp: merton_try_def truediv_def Let_def)

lemma merton_zero_debt_fallback:
  "merton_structural_model Phi v 0 r s t = (Num 0.5, Num 0)"
  by (simp add: merton_structural_model_def merton_try_def truediv_def)

text \<open>
  C7 fails for a negative company value over a positive debt face value: the quotient is
  negative, \<open>np.log\<close> answers \<open>nan\<close> without raising, the \<open>except\<close> branch is not reached,
  and both results are \<open>nan\<close> instead of the fallback pair \<open>(0.5, 0)\<close>.
\<close>

theorem merton_negative_value_nan:
  "merton_structural_model Phi (- 1) 1 0.05 0.2 1 = (NaN, NaN)"
  by (simp add: merton_structural_model_def merton_try_def truediv_def np_log_def np_sub_def
      Let_def)

text \<open>
  A company value of 0 gives the pair \<open>(1, -inf)\<close>, and two negative values give an
  ordinary finite result; neither reaches the fallback.
\<close>

lemma merton_zero_value_inf:
  "merton_structural_model Phi 0 1 0.05 0.2 1 = (Num 1, NegInf)"
  by (simp add: merton_structural_model_def merton_try_def truediv_def np_log_def np_sub_def
      np_sqrt_def signed_inf_def Let_def)

lemma merton_both_negative_no_fallback:
  "merton_structural_model Phi (- 2) (- 1) 0.5 1 1 = (Num (Phi (- ln 2)), Num (ln 2))"
  by (simp add: merton_structural_model_def merton_try_def truediv_def np_log_def np_sub_def
      np_sqrt_def Let_def)

subsection \<open>Monte Carlo cash-flow simulation\<close>

lemma simulate_periods_shape:
  assumes gen: "\<And>g loc scale n xs g'. normal g loc scale n = Inr (xs, g') \<Longrightarrow> length xs = n"
    and run: "simulate_periods normal vol sims ts g data cur = Inr (out, gfin)"
    and rows: "\<forall>row \<in> set data. length row = sims"
  shows "length out = length data \<and> (\<forall>row \<in> set out. length row = sims)"
  using run rows
proof (induction ts arbitrary: g data cur)
  case Nil
  then show ?case by simp
next
  case (Cons t ts)
  from Cons.prems(1) obtain shocks g' where
    draw: "normal g 0 vol sims = Inr (shocks, g')"
    and rest: "simulate_periods normal vol sims ts g'
        (data[t := map (\<lambda>shock. cur * (1 + shock)) shocks])
        (np_mean (map (\<lambda>shock. cur * (1 + shock)) shocks)) = Inr (out, gfin)"
    by (cases "normal g 0 vol sims") (auto simp: Let_def)
  have len: "length shocks = sims" using gen [OF draw] .
  have "\<forall>row \<in> set (data[t := map (\<lambda>shock. cur * (1 + shock)) shocks]). length row = sims"
    using Cons.prems(2) len by (auto dest!: set_update_subset_insert [THEN subsetD])
  from Cons.IH [OF rest this] show ?case by simp
qed

text \<open>
  C8. Two runs with the same parameters return the same result whatever state the global
  generator was in before each run, since the first step reseeds it with 42 and every later
  draw and every period's base follow from that state. When a draw of size \<open>n\<close> returns
  \<open>n\<close> values, a run that returns gives a matrix of \<open>periods\<close> rows of \<open>simulations\<close> values,
  and the other run returns the same matrix and leaves the generator in the same state.
\<close>

theorem monte_carlo_deterministic:
  "monte_carlo_cashflow_simulation seed normal g1 base vol periods sims
     = monte_carlo_cashflow_simulation seed normal g2 base vol periods sims
   \<and> ((\<forall>g loc scale n xs g'. normal g loc scale n = Inr (xs, g') \<longrightarrow> length xs = n)
        \<and> monte_carlo_cashflow_simulation seed normal g1 base vol periods sims = Inr (out, gfin)
      \<longrightarrow> length out = periods \<and> (\<forall>row \<in> set out. length row = sims)
          \<and> monte_carlo_cashflow_simulation seed normal g2 base vol periods sims
              = Inr (out, gfin))"
proof (intro conjI impI)
  show same: "monte_carlo_cashflow_simulation seed normal g1 base vol periods sims
     = monte_carlo_cashflow_simulation seed normal g2 base vol periods sims"
    by (simp add: monte_carlo_cashflow_simulation_def)
  assume asm: "(\<forall>g loc scale n xs g'. normal g loc scale n = Inr (xs, g') \<longrightarrow> length xs = n)
        \<and> monte_carlo_cashflow_simulation seed normal g1 base vol periods sims = Inr (out, gfin)"
  then have gen: "\<And>g loc scale n xs g'. normal g loc scale n = Inr (xs, g') \<Longrightarrow> length xs = n"
    by blast
  from asm have run: "simulate_periods normal vol sims [0..<periods] (seed 42)
        (replicate periods (replicate sims 0)) base = Inr (out, gfin)"
    by (simp add: monte_carlo_cashflow_simulation_def)
  have zeros: "\<forall>row \<in> set (replicate periods (replicate sims (0::real))). length row = sims"
    by simp
  have shape: "length out = length (replicate periods (replicate sims (0::real)))
        \<and> (\<forall>row \<in> set out. length row = sims)"
    using gen run zeros by (rule simulate_periods_shape)
  from shape show "length out = periods" by simp
  from shape show "\<forall>row \<in> set out. length row = sims" by simp
  from asm same show "monte_carlo_cashflow_simulation seed normal g2 base vol periods sims
              = Inr (out, gfin)" by simp
qed

theorem monte_carlo_deterministic_witness:
  "monte_carlo_cashflow_simulation (\<lambda>n. n) counter_normal 0 100 (1 / 2) 2 2
     = monte_carlo_cashflow_simulation (\<lambda>n. n) counter_normal 7 100 (1 / 2) 2 2
   \<and> (\<exists>out gfin. monte_carlo_cashflow_simulation (\<lambda>n. n) counter_normal 7 100 (1 / 2) 2 2
                      = Inr (out, gfin)
         \<and> length out = 2 \<and> list_all (\<lambda>row. length row = 2) out)"
proof -
  have gen: "\<forall>g loc scale n xs g'. counter_normal g loc scale n = Inr (xs, g') \<longrightarrow> length xs = n"
    by (auto simp: counter_normal_def)
  have two: "[0..<2::nat] = [0, 1]"
    by code_simp
  obtain out gfin where
    run: "monte_carlo_cashflow_simulation (\<lambda>n. n) counter_normal 0 100 (1 / 2) 2 2 = Inr (out, gfin)"
    by (simp add: monte_carlo_cashflow_simulation_def counter_normal_def Let_def two)
  note inst = monte_carlo_deterministic
    [of "\<lambda>n. n" counter_normal 0 100 "1 / 2" 2 2 7 out gfin]
  from inst have same: "monte_carlo_cashflow_simulation (\<lambda>n. n) counter_normal 0 100 (1 / 2) 2 2
     = monte_carlo_cashflow_simulation (\<lambda>n. n) counter_normal 7 100 (1 / 2) 2 2"
    by (rule conjunct1)
  from inst gen run
  have shape: "length out = 2 \<and> (\<forall>row \<in> set out. length row = 2)
      \<and> monte_carlo_cashflow_simulation (\<lambda>n. n) counter_normal 7 100 (1 / 2) 2 2 = Inr (out, gfin)"
    by blast
  then have "monte_carlo_cashflow_simulation (\<lambda>n. n) counter_normal 7 100 (1 / 2) 2 2
                      = Inr (out, gfin)
         \<and> length out = 2 \<and> list_all (\<lambda>row. length row = 2) out"
    by (simp add: list_all_iff)
  then have "\<exists>out gfin. monte_carlo_cashflow_simulation (\<lambda>n. n) counter_normal 7 100 (1 / 2) 2 2
                      = Inr (out, gfin)
         \<and> length out = 2 \<and> list_all (\<lambda>row. length row = 2) out"
    by blast
  with same show ?thesis by (rule conjI)
qed

subsection \<open>Metric extraction\<close>

lemma empty_table_raises:
  "rows df = [] \<Longrightarrow> extract_try sortv pyf df st = Inl IndexError"
  by (simp add: extract_try_def select_latest_row_def iloc_def)

text \<open>
  C9. \<open>extract_financial_metrics\<close> returns for every table and statement type, whatever
  sorting and number parsing do: the metrics when the body succeeds, the empty mapping when
  it raises. On a table without rows the row selection raises \<open>IndexError\<close> and the result
  is the empty mapping.
\<close>

theorem extract_financial_metrics_total:
  "(\<exists>metrics. extract_financial_metrics sortv pyf df st = Inr metrics)
   \<and> (rows df = [] \<longrightarrow>
        extract_try sortv pyf df st = Inl IndexError
        \<and> extract_financial_metrics sortv pyf df st = Inr Map.empty)
   \<and> (extract_try sortv pyf df st = Inr m \<longrightarrow>
        extract_financial_metrics sortv pyf df st = Inr m)
   \<and> (extract_try sortv pyf df st = Inl e \<longrightarrow>
        extract_financial_metrics sortv pyf df st = Inr Map.empty)"
  by (auto simp: extract_financial_metrics_def empty_table_raises split: sum.splits)

lemma one_row_income:
  "extract_try (\<lambda>df by. Inr df) (\<lambda>s. Inl ValueError)
       \<lparr>columns = [''revenue'', ''cogs'', ''region''],
        rows = [[Number 100, Number 40, Text ''north'']]\<rparr> ''income_statement''
     = Inr [''revenue'' \<mapsto> 100, ''cogs'' \<mapsto> 40, ''gross_profit'' \<mapsto> 60]"
  by (simp add: extract_try_def select_latest_row_def iloc_def core_metrics_def row_values_def
      derive_metrics_def)

theorem extract_financial_metrics_total_witness:
  "extract_financial_metrics (\<lambda>df by. Inr df) (\<lambda>s. Inl ValueError)
       \<lparr>columns = [''revenue'', ''cogs''], rows = []\<rparr> ''income_statement'' = Inr Map.empty
   \<and> extract_financial_metrics (\<lambda>df by. Inr df) (\<lambda>s. Inl ValueError)
       \<lparr>columns = [''revenue'', ''cogs'', ''region''],
        rows = [[Number 100, Number 40, Text ''north'']]\<rparr> ''income_statement''
     = Inr [''revenue'' \<mapsto> 100, ''cogs'' \<mapsto> 40, ''gross_profit'' \<mapsto> 60]
   \<and> extract_financial_metrics (\<lambda>df by. Inr df) (\<lambda>s. Inl ValueError)
       \<lparr>columns = [''revenue''], rows = [[Text ''n/a'']]\<rparr> ''unknown'' = Inr Map.empty"
proof -
  have bad: "extract_try (\<lambda>df by. Inr df) (\<lambda>s. Inl ValueError)
       \<lparr>columns = [''revenue''], rows = [[Text ''n/a'']]\<rparr> ''unknown'' = Inl ValueError"
    by (simp add: extract_try_def select_latest_row_def iloc_def core_metrics_def
        row_values_def)
  show ?thesis
    using extract_financial_metrics_total
        [of "\<lambda>df by. Inr df" "\<lambda>s. Inl ValueError"
            "\<lparr>columns = [''revenue'', ''cogs''], rows = []\<rparr>" "''income_statement''"]
      extract_financial_metrics_total
        [of "\<lambda>df by. Inr df" "\<lambda>s. Inl ValueError"
            "\<lparr>columns = [''revenue'', ''cogs'', ''region''],
              rows = [[Number 100, Number 40, Text ''north'']]\<rparr>" "''income_statement''"
            "[''revenue'' \<mapsto> 100, ''cogs'' \<mapsto> 40, ''gross_profit'' \<mapsto> 60]"]
      extract_financial_metrics_total
        [of "\<lambda>df by. Inr df" "\<lambda>s. Inl ValueError"
            "\<lparr>columns = [''revenue''], rows = [[Text ''n/a'']]\<rparr>" "''unknown''" _ ValueError]
      one_row_income bad
    by simp
qed

end
